theory Spec2Isabelle
  imports Complex_Main
begin

section \<open>Values, options and errors\<close>

text \<open>
  A number of the host language is a double. The finite ones are kept as rationals (the
  largest integer below a finite double is a double again, so \<open>Math.floor\<close> is exact on
  them); the sign of zero is not kept apart.
\<close>

datatype jsnum = Fin rat | NaN | PosInf | NegInf

text \<open>
  The values expressions and documents are made of. An object is the list of its entries
  in the order \<open>each\<close> visits them; an absent value (\<open>undefined\<close>) and \<open>null\<close> are two values.
\<close>

datatype val =
    VUndef
  | VNull
  | VBool bool
  | VNum jsnum
  | VStr string
  | VArr "val list"
  | VObj "(string \<times> val) list"

text \<open>\<open>interface Config\<close> and \<open>createConfig\<close>.\<close>

record Config =
  idKey :: string

definition createConfig :: "Config" where
  "createConfig = \<lparr>idKey = ''_id''\<rparr>"

text \<open>
  \<open>interface Options\<close> with its extension \<open>ComputeOptions\<close>: \<open>config\<close> may be missing
  on the first invocation, \<open>root\<close> is the optional property (\<open>None\<close> when the object does
  not have it).
\<close>

record Options =
  config :: "Config option"
  root :: "val option"

text \<open>
  Every failure of the source is an \<open>assert\<close> that throws; the constructors name the site
  that threw it, with the operator name, the offending expression or the message it
  carries. \<open>Failure\<close> is what an operator implementation throws on its own account.
\<close>

datatype error =
    InvalidOperatorName string
  | DuplicateOperator string
  | InvalidExpression val
  | InvalidGroupExpression val
  | TypeError string
  | Failure string

section \<open>The helpers imported from util\<close>

text \<open>
  Modelled from the spec: the type tests \<open>isNil\<close>, \<open>isString\<close>, \<open>isArray\<close>, \<open>isObject\<close>,
  \<open>isObjectLike\<close> and \<open>isNumber\<close> of \<open>./util\<close>, which is not among the sources. They read
  the constructor of the value: a sequence is an array, a mapping is a plain object, and
  object-like is either of the two.
\<close>

fun isNil :: "val \<Rightarrow> bool" where
  "isNil VUndef = True"
| "isNil VNull = True"
| "isNil _ = False"

fun isString :: "val \<Rightarrow> bool" where
  "isString (VStr s) = True"
| "isString _ = False"

fun isArray :: "val \<Rightarrow> bool" where
  "isArray (VArr xs) = True"
| "isArray _ = False"

fun isObject :: "val \<Rightarrow> bool" where
  "isObject (VObj kvs) = True"
| "isObject _ = False"

fun isObjectLike :: "val \<Rightarrow> bool" where
  "isObjectLike (VArr xs) = True"
| "isObjectLike (VObj kvs) = True"
| "isObjectLike _ = False"

fun isNumber :: "val \<Rightarrow> bool" where
  "isNumber (VNum x) = True"
| "isNumber _ = False"

text \<open>
  Modelled from the spec: \<open>has\<close> and \<open>keys\<close> of \<open>./util\<close>. \<open>has\<close> is the test for an own
  property under a string key; on a value that is not a plain object no key of interest
  here is present.
\<close>

fun has :: "val \<Rightarrow> string \<Rightarrow> bool" where
  "has (VObj kvs) k = (k \<in> set (map fst kvs))"
| "has _ k = False"

fun keys :: "val \<Rightarrow> string list" where
  "keys (VObj kvs) = map fst kvs"
| "keys _ = []"

text \<open>\<open>result[key] = v\<close> on the entries of an object: an existing key keeps its place.\<close>

fun assign :: "(string \<times> val) list \<Rightarrow> string \<Rightarrow> val \<Rightarrow> (string \<times> val) list" where
  "assign [] k v = [(k, v)]"
| "assign ((k', v') # kvs) k v = (if k' = k then (k, v) # kvs else (k', v') # assign kvs k v)"

text \<open>\<open>delete obj[key]\<close>.\<close>

definition delete :: "(string \<times> val) list \<Rightarrow> string \<Rightarrow> (string \<times> val) list" where
  "delete kvs k = filter (\<lambda>kv. fst kv \<noteq> k) kvs"

text \<open>\<open>expr.split('.')\<close>: the result is never empty.\<close>

fun split :: "string \<Rightarrow> char \<Rightarrow> string list" where
  "split [] c = [] # []"
| "split (x # xs) c =
     (if x = c then [] # split xs c
      else (case split xs c of [] \<Rightarrow> [x] # [] | w # ws \<Rightarrow> (x # w) # ws))"

text \<open>
  \<open>resolve(obj, selector, options)\<close> of \<open>./util\<close> is the external field-path primitive. The
  evaluators take it as a parameter; the flag is its \<open>unwrapArray\<close> option.
\<close>

type_synonym resolver = "val \<Rightarrow> string \<Rightarrow> bool \<Rightarrow> val"

section \<open>The operator registry\<close>

datatype OperatorType = ACCUMULATOR | EXPRESSION | PIPELINE | PROJECTION | QUERY

text \<open>
  What the registry holds, by calling convention: the pass-through wrapper
  \<open>(obj, expr, options)\<close> of the accumulator, expression and pipeline operators, the
  projection wrapper \<open>(obj, expr, selector, options)\<close>, and the query wrapper
  \<open>(selector, value, options) => (obj) => boolean\<close>. An operator is a total function that
  returns a value or throws.
\<close>

type_synonym operator = "val \<Rightarrow> val \<Rightarrow> Options \<Rightarrow> error + val"
type_synonym projection_operator = "val \<Rightarrow> val \<Rightarrow> string \<Rightarrow> Options \<Rightarrow> error + val"
type_synonym query_operator = "string \<Rightarrow> val \<Rightarrow> Options \<Rightarrow> val \<Rightarrow> error + val"

text \<open>\<open>OPERATORS\<close>: one table per operator class, each empty at the start.\<close>

record registry =
  accumulator :: "string \<rightharpoonup> operator"
  expression :: "string \<rightharpoonup> operator"
  pipeline :: "string \<rightharpoonup> operator"
  projection :: "string \<rightharpoonup> projection_operator"
  query :: "string \<rightharpoonup> query_operator"

definition OPERATORS :: registry where
  "OPERATORS = \<lparr>accumulator = Map.empty, expression = Map.empty, pipeline = Map.empty,
                 projection = Map.empty, query = Map.empty\<rparr>"

text \<open>
  \<open>useOperators\<close>, on the table of the class: \<open>Object.assign\<close> of the new entries, a later
  entry of the same name overwriting an earlier one.
\<close>

definition useOperators :: "(string \<rightharpoonup> 'f) \<Rightarrow> (string \<times> 'f) list \<Rightarrow> (string \<rightharpoonup> 'f)" where
  "useOperators table operators = fold (\<lambda>kf t. t(fst kf \<mapsto> snd kf)) operators table"

text \<open>
  \<open>getOperator\<close>, on the table of the class. The operator argument is \<open>null\<close> where the
  callers pass none; the names in the tables begin with \<open>$\<close>, so \<open>null\<close> names no entry.
\<close>

definition getOperator :: "(string \<rightharpoonup> 'f) \<Rightarrow> string option \<Rightarrow> 'f option" where
  "getOperator table operator = (case operator of None \<Rightarrow> None | Some name \<Rightarrow> table name)"

section \<open>System variables and redact variables\<close>

text \<open>
  \<open>options = options || { config: null }\<close> followed by
  \<open>options.config = options.config || createConfig()\<close>: the options every later step of
  \<open>computeValue\<close> works with. The second assignment writes into the object of the
  caller, so a caller that passed an object reads the same options afterwards.
\<close>

definition ensure :: "Options option \<Rightarrow> Options" where
  "ensure options0 =
     (let options = (case options0 of None \<Rightarrow> \<lparr>config = None, root = None\<rparr> | Some opts \<Rightarrow> opts)
      in options\<lparr>config := Some (case config options of None \<Rightarrow> createConfig | Some c \<Rightarrow> c)\<rparr>)"

text \<open>
  \<open>Object.assign({ root: obj }, options)\<close>: a fresh object, in which a \<open>root\<close> of
  \<open>options\<close> overwrites the new one. \<open>options\<close> itself is left as it was.
\<close>

definition assignRoot :: "val \<Rightarrow> Options \<Rightarrow> Options" where
  "assignRoot obj options =
     (case root options of None \<Rightarrow> options\<lparr>root := Some obj\<rparr> | Some r \<Rightarrow> options)"

text \<open>The table \<open>systemVariables\<close>: each handler takes \<open>(obj, expr, options)\<close>.\<close>

definition systemVariables :: "(string \<times> (val \<Rightarrow> val \<Rightarrow> Options \<Rightarrow> val)) list" where
  "systemVariables =
     [(''$$ROOT'', \<lambda>obj expr options. (case root options of None \<Rightarrow> VUndef | Some r \<Rightarrow> r)),
      (''$$CURRENT'', \<lambda>obj expr options. obj),
      (''$$REMOVE'', \<lambda>obj expr options. VUndef)]"

text \<open>
  The keys of the table \<open>redactVariables\<close>; its handlers call \<open>redact\<close> and are defined
  together with it below.
\<close>

definition redactVariableNames :: "string list" where
  "redactVariableNames = [''$$KEEP'', ''$$PRUNE'', ''$$DESCEND'']"

section \<open>computeValue\<close>

text \<open>
  The test \<open>[EXPRESSION, ACCUMULATOR].some(c => has(OPERATORS[c], key))\<close> of the object
  case.
\<close>

definition isOperatorKey :: "registry \<Rightarrow> string \<Rightarrow> bool" where
  "isOperatorKey R key = (key \<in> dom (expression R) \<or> key \<in> dom (accumulator R))"

text \<open>
  \<open>computeValue(obj, expr, operator, options)\<close>, with the \<open>resolve\<close> primitive and the
  registry as parameters. \<open>computeItems\<close> is the \<open>expr.map\<close> of the array case.
  \<open>computeEach\<close> is the \<open>each\<close> loop of the object case: it carries the whole expression
  (for \<open>keys(expr).length\<close> and the message), the entries still to visit and the \<open>result\<close>
  built so far; reaching an operator key ends the loop.
\<close>

function (sequential)
  computeValue :: "resolver \<Rightarrow> registry \<Rightarrow> val \<Rightarrow> val \<Rightarrow> string option \<Rightarrow> Options option \<Rightarrow> error + val"
  and computeItems :: "resolver \<Rightarrow> registry \<Rightarrow> val \<Rightarrow> val list \<Rightarrow> Options \<Rightarrow> error + val list"
  and computeEach :: "resolver \<Rightarrow> registry \<Rightarrow> val \<Rightarrow> val \<Rightarrow> (string \<times> val) list \<Rightarrow> (string \<times> val) list \<Rightarrow> Options \<Rightarrow> error + val"
where
  "computeValue resolve R obj expr operator options0 =
     (let options = ensure options0 in
      case getOperator (expression R) operator of
        Some call \<Rightarrow> call obj expr options
      | None \<Rightarrow>
       (case getOperator (accumulator R) operator of
          Some call \<Rightarrow>
            (case computeValue resolve R obj expr None (Some options) of
               Inl e \<Rightarrow> Inl e
             | Inr obj' \<Rightarrow>
                 if isArray obj' then call obj' VNull options
                 else Inl (TypeError ((case operator of None \<Rightarrow> ''null'' | Some name \<Rightarrow> name)
                        @ '' expression must resolve to an array'')))
        | None \<Rightarrow>
         (case expr of
            VStr s \<Rightarrow>
              if s \<noteq> [] \<and> hd s = CHR ''$'' then
                if s \<in> set redactVariableNames then Inr expr
                else
                  let arr = split s CHR ''.'' in
                  (case map_of systemVariables (hd arr) of
                     Some var \<Rightarrow>
                       let obj' = var obj VNull (assignRoot obj options) in
                       if length arr = 1 then Inr obj'
                       else Inr (resolve obj' (drop 1 (drop (length (hd arr)) s)) False)
                   | None \<Rightarrow> Inr (resolve obj (drop 1 s) False))
              else Inr expr
          | VArr items \<Rightarrow>
              (case computeItems resolve R obj items options of
                 Inl e \<Rightarrow> Inl e
               | Inr vs \<Rightarrow> Inr (VArr vs))
          | VObj kvs \<Rightarrow> computeEach resolve R obj expr kvs [] options
          | _ \<Rightarrow> Inr expr)))"
| "computeItems resolve R obj [] options = Inr []"
| "computeItems resolve R obj (item # items) options =
     (case computeValue resolve R obj item None (Some options) of
        Inl e \<Rightarrow> Inl e
      | Inr v \<Rightarrow>
         (case computeItems resolve R obj items options of
            Inl e \<Rightarrow> Inl e
          | Inr vs \<Rightarrow> Inr (v # vs)))"
| "computeEach resolve R obj expr [] result options = Inr (VObj result)"
| "computeEach resolve R obj expr ((key, v) # rest) result options =
     (case computeValue resolve R obj v (Some key) (Some options) of
        Inl e \<Rightarrow> Inl e
      | Inr r \<Rightarrow>
          if isOperatorKey R key then
            (if length (keys expr) = 1 then Inr r else Inl (InvalidExpression expr))
          else computeEach resolve R obj expr rest (assign result key r) options)"
  by pat_completeness auto
termination
  apply (relation "measure (\<lambda>x. case x of
      Inl (rs, R, obj, expr, operator, options) \<Rightarrow>
        2 * size expr + (case operator of None \<Rightarrow> 0 | Some _ \<Rightarrow> 1)
    | Inr (Inl (rs, R, obj, items, options)) \<Rightarrow> 2 * size_list size items + 1
    | Inr (Inr (rs, R, obj, expr, kvs, result, options)) \<Rightarrow>
        2 * size_list (size_prod (\<lambda>x. 0) size) kvs + 1)")
  apply (auto simp: getOperator_def split: option.splits)
  done

declare computeValue.simps [simp del]

section \<open>accumulate\<close>

text \<open>
  \<open>accumulate(collection, field, expr, options)\<close>; \<open>accumulateEach\<close> is its \<open>each\<close> loop.
  A call that falls through both tests returns nothing, that is \<open>undefined\<close>.
\<close>

function (sequential)
  accumulate :: "registry \<Rightarrow> val list \<Rightarrow> string \<Rightarrow> val \<Rightarrow> Options \<Rightarrow> error + val"
  and accumulateEach :: "registry \<Rightarrow> val list \<Rightarrow> val \<Rightarrow> (string \<times> val) list \<Rightarrow> (string \<times> val) list \<Rightarrow> Options \<Rightarrow> error + val"
where
  "accumulate R collection field expr options =
     (case getOperator (accumulator R) (Some field) of
        Some call \<Rightarrow> call (VArr collection) expr options
      | None \<Rightarrow>
         (case expr of
            VObj kvs \<Rightarrow> accumulateEach R collection expr kvs [] options
          | _ \<Rightarrow> Inr VUndef))"
| "accumulateEach R collection expr [] result options = Inr (VObj result)"
| "accumulateEach R collection expr ((key, v) # rest) result options =
     (case accumulate R collection key v options of
        Inl e \<Rightarrow> Inl e
      | Inr r \<Rightarrow>
          (case getOperator (accumulator R) (Some key) of
             Some call \<Rightarrow>
               if length (keys expr) = 1 then Inr r else Inl (InvalidGroupExpression expr)
           | None \<Rightarrow> accumulateEach R collection expr rest (assign result key r) options))"
  by pat_completeness auto
termination
  apply (relation "measure (\<lambda>x. case x of
      Inl (R, collection, field, expr, options) \<Rightarrow> 2 * size expr
    | Inr (R, collection, expr, kvs, result, options) \<Rightarrow>
        2 * size_list (size_prod (\<lambda>x. 0) size) kvs + 1)")
  apply auto
  done

declare accumulate.simps [simp del]

section \<open>redact\<close>

text \<open>
  \<open>redact(obj, expr, options)\<close> and the handlers of \<open>redactVariables\<close>, selected by name.
  The \<open>$$DESCEND\<close> handler updates the document in place and returns it; here it returns
  the updated document. \<open>descendEach\<close> is its \<open>each\<close> over the fields of an object (the
  entries still to visit, and the entries of the document as updated so far),
  \<open>descendIndex\<close> the same loop over the indices of an array (a deleted index reads as
  \<open>undefined\<close>), \<open>descendField\<close> the \<open>result\<close> computed for one object-like field and
  \<open>descendElems\<close> the inner loop over the elements of an array field. The root is handed
  down as the document it was bound to.
\<close>

text \<open>
  \<open>has(redactVariables, result)\<close> and \<open>redactVariables[result]\<close> use the result as a
  property key, with no test that it is a string, and a value that is not a string is
  converted to one first. An array converts to the join of its elements with commas, a
  \<open>null\<close> or \<open>undefined\<close> element giving the empty string, so an array of one element reads
  as that element does and any other array as no name of the table. A number, a boolean,
  \<open>null\<close>, \<open>undefined\<close> and a plain object convert to strings that are no name of the
  table. \<open>redactVariableOf\<close> is the name of the table a value reads as, if any. An object
  with a \<open>toString\<close> entry of its own, which is not callable, cannot be converted, on its
  own or as an element of an array: the conversion throws (\<open>keyThrows\<close>).
\<close>

fun keyThrows :: "val \<Rightarrow> bool"
  and keyThrowsList :: "val list \<Rightarrow> bool" where
  "keyThrows (VObj kvs) = (''toString'' \<in> set (map fst kvs))"
| "keyThrows (VArr xs) = keyThrowsList xs"
| "keyThrows v = False"
| "keyThrowsList [] = False"
| "keyThrowsList (x # xs) = (keyThrows x \<or> keyThrowsList xs)"

fun redactVariableOf :: "val \<Rightarrow> string option" where
  "redactVariableOf (VStr s) = (if s \<in> set redactVariableNames then Some s else None)"
| "redactVariableOf (VArr [x]) = redactVariableOf x"
| "redactVariableOf v = None"

function (sequential)
  redact :: "resolver \<Rightarrow> registry \<Rightarrow> val \<Rightarrow> val \<Rightarrow> Options \<Rightarrow> error + val"
  and redactVariables :: "resolver \<Rightarrow> registry \<Rightarrow> string \<Rightarrow> val \<Rightarrow> val \<Rightarrow> Options \<Rightarrow> error + val"
  and descendEach :: "resolver \<Rightarrow> registry \<Rightarrow> val \<Rightarrow> Options \<Rightarrow> (string \<times> val) list \<Rightarrow> (string \<times> val) list \<Rightarrow> error + val"
  and descendIndex :: "resolver \<Rightarrow> registry \<Rightarrow> val \<Rightarrow> Options \<Rightarrow> val list \<Rightarrow> error + val list"
  and descendField :: "resolver \<Rightarrow> registry \<Rightarrow> val \<Rightarrow> Options \<Rightarrow> val \<Rightarrow> error + val"
  and descendElems :: "resolver \<Rightarrow> registry \<Rightarrow> val \<Rightarrow> Options \<Rightarrow> val list \<Rightarrow> error + val list"
where
  "redact resolve R obj expr options =
     (case computeValue resolve R obj expr None (Some options) of
        Inl e \<Rightarrow> Inl e
      | Inr result \<Rightarrow>
          if keyThrows result then Inl (TypeError ''Cannot convert object to primitive value'')
          else
            (case redactVariableOf result of
               Some name \<Rightarrow>
                 redactVariables resolve R name obj expr (assignRoot obj (ensure (Some options)))
             | None \<Rightarrow> Inr result))"
| "redactVariables resolve R name obj expr options =
     (if name = ''$$KEEP'' then Inr obj
      else if name = ''$$PRUNE'' then Inr VUndef
      else if \<not> has expr ''$cond'' then Inr obj
      else
        (case obj of
           VObj kvs \<Rightarrow> descendEach resolve R expr options kvs kvs
         | VArr xs \<Rightarrow>
            (case descendIndex resolve R expr options xs of
               Inl e \<Rightarrow> Inl e
             | Inr ys \<Rightarrow> Inr (VArr ys))
         | _ \<Rightarrow> Inr obj))"
| "descendEach resolve R expr options [] entries = Inr (VObj entries)"
| "descendEach resolve R expr options ((key, current) # rest) entries =
     (if isObjectLike current then
        (case descendField resolve R expr options current of
           Inl e \<Rightarrow> Inl e
         | Inr result \<Rightarrow>
             descendEach resolve R expr options rest
               (if isNil result then delete entries key else assign entries key result))
      else descendEach resolve R expr options rest entries)"
| "descendIndex resolve R expr options [] = Inr []"
| "descendIndex resolve R expr options (current # rest) =
     (if isObjectLike current then
        (case descendField resolve R expr options current of
           Inl e \<Rightarrow> Inl e
         | Inr result \<Rightarrow>
            (case descendIndex resolve R expr options rest of
               Inl e \<Rightarrow> Inl e
             | Inr ys \<Rightarrow> Inr ((if isNil result then VUndef else result) # ys)))
      else
        (case descendIndex resolve R expr options rest of
           Inl e \<Rightarrow> Inl e
         | Inr ys \<Rightarrow> Inr (current # ys)))"
| "descendField resolve R expr options current =
     (case current of
        VArr elems \<Rightarrow>
          (case descendElems resolve R expr options elems of
             Inl e \<Rightarrow> Inl e
           | Inr ys \<Rightarrow> Inr (VArr ys))
      | _ \<Rightarrow> redact resolve R current expr options)"
| "descendElems resolve R expr options [] = Inr []"
| "descendElems resolve R expr options (elem # elems) =
     (case (if isObject elem then redact resolve R elem expr options else Inr elem) of
        Inl e \<Rightarrow> Inl e
      | Inr elem' \<Rightarrow>
         (case descendElems resolve R expr options elems of
            Inl e \<Rightarrow> Inl e
          | Inr ys \<Rightarrow> Inr (if isNil elem' then ys else elem' # ys)))"
  by pat_completeness auto
termination
  apply (relation "measure (\<lambda>x. case x of
      Inl (Inl (rs, R, obj, expr, options)) \<Rightarrow> 4 * size obj + 2
    | Inl (Inr (Inl (rs, R, name, obj, expr, options))) \<Rightarrow> 4 * size obj + 1
    | Inl (Inr (Inr (rs, R, expr, options, todo, entries))) \<Rightarrow>
        4 * size_list (size_prod (\<lambda>x. 0) size) todo
    | Inr (Inl (rs, R, expr, options, todo)) \<Rightarrow> 4 * size_list size todo
    | Inr (Inr (Inl (rs, R, expr, options, current))) \<Rightarrow> 4 * size current + 3
    | Inr (Inr (Inr (rs, R, expr, options, elems))) \<Rightarrow> 4 * size_list size elems)")
  apply auto
  done

declare redact.simps [simp del] redactVariables.simps [simp del] descendField.simps [simp del]

section \<open>addOperators\<close>

text \<open>
  \<open>addOperators(cls, operatorFn)\<close>. The callback \<open>operatorFn\<close> is handed the evaluators and
  returns the object of new operators; that object, as the list of its entries, is the
  argument \<open>newOperators\<close> here. A raw operator takes the arguments its wrapper passes it,
  the options last.
\<close>

type_synonym rawfn = "val list \<Rightarrow> Options \<Rightarrow> error + val"

text \<open>The test \<open>/^\$[a-zA-Z0-9_]*$/.test(op)\<close>.\<close>

definition wordChars :: "char list" where
  "wordChars = ''abcdefghijklmnopqrstuvwxyz'' @ ''ABCDEFGHIJKLMNOPQRSTUVWXYZ'' @ ''0123456789_''"

definition validName :: "string \<Rightarrow> bool" where
  "validName op =
     (case op of [] \<Rightarrow> False | c # cs \<Rightarrow> c = CHR ''$'' \<and> list_all (\<lambda>x. x \<in> set wordChars) cs)"

text \<open>Whether \<open>getOperator(cls, op)\<close> finds an operator.\<close>

definition registered :: "registry \<Rightarrow> OperatorType \<Rightarrow> string \<Rightarrow> bool" where
  "registered R cls op =
     (case cls of
        ACCUMULATOR \<Rightarrow> (case getOperator (accumulator R) (Some op) of None \<Rightarrow> False | Some call \<Rightarrow> True)
      | EXPRESSION \<Rightarrow> (case getOperator (expression R) (Some op) of None \<Rightarrow> False | Some call \<Rightarrow> True)
      | PIPELINE \<Rightarrow> (case getOperator (pipeline R) (Some op) of None \<Rightarrow> False | Some call \<Rightarrow> True)
      | PROJECTION \<Rightarrow> (case getOperator (projection R) (Some op) of None \<Rightarrow> False | Some call \<Rightarrow> True)
      | QUERY \<Rightarrow> (case getOperator (query R) (Some op) of None \<Rightarrow> False | Some call \<Rightarrow> True))"

text \<open>
  The first \<open>each\<close> of \<open>addOperators\<close>, "check for existing operators": the failure of the
  first name, in the order of the entries, that fails one of the two assertions.
\<close>

fun checkOperators :: "registry \<Rightarrow> OperatorType \<Rightarrow> (string \<times> rawfn) list \<Rightarrow> error option" where
  "checkOperators R cls [] = None"
| "checkOperators R cls ((op, fn) # rest) =
     (if \<not> validName op then Some (InvalidOperatorName op)
      else if registered R cls op then Some (DuplicateOperator op)
      else checkOperators R cls rest)"

text \<open>
  The result is the outcome of the call together with the registry after it. The binding
  of \<open>this\<close> to the group of new operators is not modelled.
\<close>

definition addOperators :: "resolver \<Rightarrow> OperatorType \<Rightarrow> (string \<times> rawfn) list \<Rightarrow> registry \<Rightarrow> (error + unit) \<times> registry" where
  "addOperators resolve cls newOperators R =
     (case checkOperators R cls newOperators of
        Some e \<Rightarrow> (Inl e, R)
      | None \<Rightarrow>
         (Inr (),
          case cls of
            QUERY \<Rightarrow>
              R\<lparr>query := useOperators (query R)
                  (map (\<lambda>(op, fn). (op, \<lambda>selector value options obj.
                          fn [VStr selector, resolve obj selector True, value] options))
                     newOperators)\<rparr>
          | PROJECTION \<Rightarrow>
              R\<lparr>projection := useOperators (projection R)
                  (map (\<lambda>(op, fn). (op, \<lambda>obj expr selector options.
                          fn [VStr selector, resolve obj selector False, expr] options))
                     newOperators)\<rparr>
          | ACCUMULATOR \<Rightarrow>
              R\<lparr>accumulator := useOperators (accumulator R)
                  (map (\<lambda>(op, fn). (op, \<lambda>obj expr options. fn [obj, expr] options)) newOperators)\<rparr>
          | EXPRESSION \<Rightarrow>
              R\<lparr>expression := useOperators (expression R)
                  (map (\<lambda>(op, fn). (op, \<lambda>obj expr options. fn [obj, expr] options)) newOperators)\<rparr>
          | PIPELINE \<Rightarrow>
              R\<lparr>pipeline := useOperators (pipeline R)
                  (map (\<lambda>(op, fn). (op, \<lambda>obj expr options. fn [obj, expr] options)) newOperators)\<rparr>))"

section \<open>The operator \<open>$floor\<close>\<close>

text \<open>\<open>Math.floor\<close> on a number: not-a-number and the infinities are returned as they are.\<close>

fun Math_floor :: "jsnum \<Rightarrow> jsnum" where
  "Math_floor (Fin q) = Fin (of_int \<lfloor>q\<rfloor>)"
| "Math_floor x = x"

text \<open>
  The conversion to a number that the built-ins \<open>isNaN\<close> and \<open>Math.floor\<close> apply to their
  argument. \<open>undefined\<close> converts to not-a-number, and so does a plain object through its
  inherited \<open>toString\<close>. What a string, an array or an object with a \<open>toString\<close> entry of
  its own converts to (or that the conversion throws) is the host's business: the
  parameter \<open>host\<close>.
\<close>

fun ToNumber :: "(val \<Rightarrow> error + jsnum) \<Rightarrow> val \<Rightarrow> error + jsnum" where
  "ToNumber host VUndef = Inr NaN"
| "ToNumber host VNull = Inr (Fin 0)"
| "ToNumber host (VBool b) = Inr (Fin (if b then 1 else 0))"
| "ToNumber host (VNum x) = Inr x"
| "ToNumber host (VStr s) = host (VStr s)"
| "ToNumber host (VArr xs) = host (VArr xs)"
| "ToNumber host (VObj kvs) =
     (if ''toString'' \<in> set (map fst kvs) then host (VObj kvs) else Inr NaN)"

definition isNaN :: "(val \<Rightarrow> error + jsnum) \<Rightarrow> val \<Rightarrow> error + bool" where
  "isNaN host v = (case ToNumber host v of Inl e \<Rightarrow> Inl e | Inr x \<Rightarrow> Inr (x = NaN))"

text \<open>
  \<open>$floor(obj, expr, options)\<close>. The assertion is \<open>isNumber(n) || isNaN(n)\<close>; whether
  \<open>isNumber\<close> holds of not-a-number does not matter to it.
\<close>

definition floor_op :: "(val \<Rightarrow> error + jsnum) \<Rightarrow> resolver \<Rightarrow> registry \<Rightarrow> val \<Rightarrow> val \<Rightarrow> Options \<Rightarrow> error + val" where
  "floor_op host resolve R obj expr options =
     (case computeValue resolve R obj expr None (Some options) of
        Inl e \<Rightarrow> Inl e
      | Inr n \<Rightarrow>
          if isNil n then Inr VNull
          else
            (case (if isNumber n then Inr True else isNaN host n) of
               Inl e \<Rightarrow> Inl e
             | Inr ok \<Rightarrow>
                 if ok then
                   (case ToNumber host n of
                      Inl e \<Rightarrow> Inl e
                    | Inr x \<Rightarrow> Inr (VNum (Math_floor x)))
                 else Inl (TypeError ''$floor expression must resolve to a number.'')))"

section \<open>Notions used in the statements\<close>

text \<open>A key that names a registered accumulator, the test of the loop of \<open>accumulate\<close>.\<close>

definition isAccumulatorKey :: "registry \<Rightarrow> string \<Rightarrow> bool" where
  "isAccumulatorKey R key = (key \<in> dom (accumulator R))"

text \<open>
  The entries an \<open>each\<close> loop over a mapping visits when it breaks at the first key that
  satisfies \<open>isOp\<close>: the entries before that key, and its own.
\<close>

fun visited :: "(string \<Rightarrow> bool) \<Rightarrow> (string \<times> 'a) list \<Rightarrow> (string \<times> 'a) list" where
  "visited isOp [] = []"
| "visited isOp ((key, v) # rest) =
     (if isOp key then [(key, v)] else (key, v) # visited isOp rest)"

text \<open>
  A name that fails one of the two assertions of the first loop of \<open>addOperators\<close>: it
  does not match the pattern, or it is registered already.
\<close>

definition offends :: "registry \<Rightarrow> OperatorType \<Rightarrow> string \<Rightarrow> bool" where
  "offends R cls op = (\<not> validName op \<or> registered R cls op)"

text \<open>
  Modelled from the spec: \<open>resolve\<close>, the dot-path field resolution of \<open>./util\<close>, which is
  not among the sources, on nested plain objects: each segment of the path selects a
  field, and a missing field gives \<open>undefined\<close>. Array traversal and unwrapping are left
  out. It serves as the resolver of the concrete examples.
\<close>

fun walk :: "val \<Rightarrow> string list \<Rightarrow> val" where
  "walk v [] = v"
| "walk (VObj kvs) (seg # segs) =
     (case map_of kvs seg of None \<Rightarrow> VUndef | Some x \<Rightarrow> walk x segs)"
| "walk v (seg # segs) = VUndef"

definition resolvePath :: resolver where
  "resolvePath obj selector unwrapArray = walk obj (split selector CHR ''.'')"

section \<open>Example inputs\<close>

text \<open>The document \<open>{a: {b: 1}}\<close> and the options \<open>{}\<close>.\<close>

definition docAB :: val where
  "docAB = VObj [(''a'', VObj [(''b'', VNum (Fin 1))])]"

definition noOptions :: Options where
  "noOptions = \<lparr>config = None, root = None\<rparr>"

text \<open>
  An expression operator that returns the \<open>root\<close> of the options it is called with
  (\<open>(obj, expr, options) => options.root\<close>), registered as \<open>$probe\<close>.
\<close>

definition probe :: operator where
  "probe obj expr options = Inr (case root options of None \<Rightarrow> VUndef | Some r \<Rightarrow> r)"

definition probeRegistry :: registry where
  "probeRegistry = OPERATORS\<lparr>expression := useOperators (expression OPERATORS) [(''$probe'', probe)]\<rparr>"

text \<open>An accumulator that throws, registered as \<open>$boom\<close>.\<close>

definition boom :: operator where
  "boom obj expr options = Inl (Failure ''boom'')"

definition boomGroupRegistry :: registry where
  "boomGroupRegistry = OPERATORS\<lparr>accumulator := useOperators (accumulator OPERATORS) [(''$boom'', boom)]\<rparr>"

text \<open>
  An accumulator that returns the number of values it is given, registered under the
  names \<open>$sum\<close> and \<open>$avg\<close> (what the two compute plays no part below).
\<close>

fun count :: operator where
  "count (VArr xs) expr options = Inr (VNum (Fin (of_nat (length xs))))"
| "count v expr options = Inl (Failure ''not an array'')"

definition groupRegistry :: registry where
  "groupRegistry =
     OPERATORS\<lparr>accumulator := useOperators (accumulator OPERATORS) [(''$sum'', count), (''$avg'', count)]\<rparr>"

text \<open>A raw operator for \<open>addOperators\<close>, and a registry that holds \<open>$a\<close> as an expression operator.\<close>

definition raw :: rawfn where
  "raw args options = Inr VNull"

definition dupRegistry :: registry where
  "dupRegistry = snd (addOperators resolvePath EXPRESSION [(''$a'', raw)] OPERATORS)"

text \<open>
  Expressions: \<open>{$sum: [1, 2]}\<close>, \<open>{x: 1, $sum: [1, 2], y: 3}\<close>, \<open>{$floor: true, a: 2}\<close>,
  \<open>{$boom: 1, a: 2}\<close> and the group specification \<open>{$sum: '$a', $avg: '$a'}\<close>.
\<close>

definition sumOnly :: val where
  "sumOnly = VObj [(''$sum'', VArr [VNum (Fin 1), VNum (Fin 2)])]"

definition sumAmongOthers :: val where
  "sumAmongOthers =
     VObj [(''x'', VNum (Fin 1)), (''$sum'', VArr [VNum (Fin 1), VNum (Fin 2)]), (''y'', VNum (Fin 3))]"

definition floorAndField :: val where
  "floorAndField = VObj [(''$floor'', VBool True), (''a'', VNum (Fin 2))]"

definition boomAndField :: val where
  "boomAndField = VObj [(''$boom'', VNum (Fin 1)), (''a'', VNum (Fin 2))]"

definition sumAndAvg :: val where
  "sumAndAvg = VObj [(''$sum'', VStr ''$a''), (''$avg'', VStr ''$a'')]"

text \<open>
  An expression operator that evaluates its argument against the field \<open>a\<close> of the
  document, with the options it was handed:
  \<open>(obj, expr, options) => computeValue(obj.a, expr, null, options)\<close>, registered as \<open>$on\<close>.
  Its inner evaluation runs with no operators registered, which makes no difference to
  an argument that is a path.
\<close>

definition on :: operator where
  "on obj expr options =
     computeValue resolvePath OPERATORS (resolvePath obj ''a'' False) expr None (Some options)"

definition onRegistry :: registry where
  "onRegistry = OPERATORS\<lparr>expression := useOperators (expression OPERATORS) [(''$on'', on)]\<rparr>"

text \<open>
  Two batches for \<open>addOperators\<close> on \<open>dupRegistry\<close>: \<open>{$b, $a}\<close> and \<open>{bad, $a}\<close>.
\<close>

definition dupBatch :: "(string \<times> rawfn) list" where
  "dupBatch = [(''$b'', raw), (''$a'', raw)]"

definition badBatch :: "(string \<times> rawfn) list" where
  "badBatch = [(''bad'', raw), (''$a'', raw)]"

text \<open>A host conversion for the examples, none of which reaches it.\<close>

definition noHost :: "val \<Rightarrow> error + jsnum" where
  "noHost v = Inl (Failure ''conversion left to the host'')"

text \<open>
  The operator \<open>$floor\<close> registered as an expression operator. Its own evaluation of its
  argument runs with no operators registered, which makes no difference to an argument
  that is a scalar.
\<close>

definition floorRegistry :: registry where
  "floorRegistry =
     OPERATORS\<lparr>expression := useOperators (expression OPERATORS)
                   [(''$floor'', floor_op noHost resolvePath OPERATORS)]\<rparr>"

section \<open>Properties\<close>

subsection \<open>Auxiliary facts\<close>

lemma ensure_idem: "ensure (Some (ensure options0)) = ensure options0"
  by (simp add: ensure_def Let_def split: option.splits)

lemma computeValue_ensure:
  "computeValue rs R obj expr operator (Some (ensure options0))
     = computeValue rs R obj expr operator options0"
  by (subst (1 2) computeValue.simps) (simp only: ensure_idem)

lemma getOperator_None: "getOperator table None = None"
  by (simp add: getOperator_def)

lemma getOperator_Some: "getOperator table (Some name) = table name"
  by (simp add: getOperator_def)

lemma computeValue_object:
  "computeValue rs R obj (VObj kvs) None options0
     = computeEach rs R obj (VObj kvs) kvs [] (ensure options0)"
  by (subst computeValue.simps) (simp add: getOperator_None Let_def)

lemmas evaluation =
  OPERATORS_def useOperators_def getOperator_def ensure_def assignRoot_def systemVariables_def
  redactVariableNames_def createConfig_def isOperatorKey_def isAccumulatorKey_def Let_def
  noOptions_def docAB_def

lemma computeEach_fails:
  assumes "\<exists>key \<in> set (map fst todo). isOperatorKey R key" and "length (keys expr) \<noteq> 1"
  shows "\<exists>e. computeEach rs R obj expr todo result options = Inl e"
  using assms
proof (induction todo arbitrary: result)
  case Nil
  then show ?case by simp
next
  case (Cons entry todo)
  obtain key v where entry: "entry = (key, v)" by (cases entry)
  show ?case
  proof (cases "computeValue rs R obj v (Some key) (Some options)")
    case (Inl e)
    then show ?thesis by (simp add: entry)
  next
    case (Inr r)
    show ?thesis
    proof (cases "isOperatorKey R key")
      case True
      with Inr Cons.prems(2) show ?thesis by (simp add: entry)
    next
      case False
      with Cons.prems(1) have "\<exists>key \<in> set (map fst todo). isOperatorKey R key"
        by (auto simp: entry)
      from Cons.IH[OF this Cons.prems(2)] False Inr show ?thesis
        by (simp add: entry)
    qed
  qed
qed

lemma computeEach_invalid:
  assumes "\<exists>key \<in> set (map fst todo). isOperatorKey R key" and "length (keys expr) \<noteq> 1"
    and "\<forall>(key, v) \<in> set (visited (isOperatorKey R) todo).
           \<exists>r. computeValue rs R obj v (Some key) (Some options) = Inr r"
  shows "computeEach rs R obj expr todo result options = Inl (InvalidExpression expr)"
  using assms
proof (induction todo arbitrary: result)
  case Nil
  then show ?case by simp
next
  case (Cons entry todo)
  obtain key v where entry: "entry = (key, v)" by (cases entry)
  from Cons.prems(3) obtain r where r: "computeValue rs R obj v (Some key) (Some options) = Inr r"
    by (auto simp: entry split: if_splits)
  show ?case
  proof (cases "isOperatorKey R key")
    case True
    with r Cons.prems(2) show ?thesis by (simp add: entry)
  next
    case False
    with Cons.prems(1) have ex: "\<exists>key \<in> set (map fst todo). isOperatorKey R key"
      by (auto simp: entry)
    from Cons.prems(3) False
    have "\<forall>(key, v) \<in> set (visited (isOperatorKey R) todo).
            \<exists>r. computeValue rs R obj v (Some key) (Some options) = Inr r"
      by (simp add: entry)
    from Cons.IH[OF ex Cons.prems(2) this] False r show ?thesis
      by (simp add: entry)
  qed
qed

subsection \<open>The single-operator rule of computeValue\<close>

text \<open>
  Claim C2, as the code has it. Let a mapping be evaluated with no operator name, and let
  one of its keys be registered as an expression or accumulator operator. If the mapping
  has exactly one entry, the call is the evaluation of the value of that entry under its
  key, \<open>computeValue(obj, value, key, options)\<close>, and no mapping is built. If it has more
  than one entry, the call fails; the failure is \<open>InvalidExpression\<close> when the entries the
  loop visits, up to and including the first operator key, evaluate without failing.
\<close>

theorem computeValue_single_operator:
  assumes "key \<in> set (keys (VObj kvs))"
    and "key \<in> dom (expression R) \<or> key \<in> dom (accumulator R)"
  shows "(length kvs = 1 \<longrightarrow>
            computeValue rs R obj (VObj kvs) None options
              = computeValue rs R obj (snd (hd kvs)) (Some key) options)
       \<and> (1 < length kvs \<longrightarrow> (\<exists>e. computeValue rs R obj (VObj kvs) None options = Inl e))
       \<and> (1 < length kvs
           \<and> (\<forall>(k, v) \<in> set (visited (isOperatorKey R) kvs).
                 \<exists>r. computeValue rs R obj v (Some k) options = Inr r) \<longrightarrow>
            computeValue rs R obj (VObj kvs) None options = Inl (InvalidExpression (VObj kvs)))"
proof (intro conjI impI)
  assume "length kvs = 1"
  with assms(1) obtain v where kvs: "kvs = [(key, v)]"
    by (cases kvs) auto
  have "computeValue rs R obj (VObj kvs) None options
          = computeValue rs R obj v (Some key) (Some (ensure options))"
    using assms(2) by (simp add: computeValue_object kvs isOperatorKey_def split: sum.splits)
  then show "computeValue rs R obj (VObj kvs) None options
          = computeValue rs R obj (snd (hd kvs)) (Some key) options"
    by (simp add: computeValue_ensure kvs)
next
  have ex: "\<exists>k \<in> set (map fst kvs). isOperatorKey R k"
    using assms by (auto simp: isOperatorKey_def)
  {
    assume "1 < length kvs"
    then have "length (keys (VObj kvs)) \<noteq> 1" by simp
    from computeEach_fails[OF ex this]
    show "\<exists>e. computeValue rs R obj (VObj kvs) None options = Inl e"
      by (simp add: computeValue_object)
  }
  {
    assume a: "1 < length kvs
           \<and> (\<forall>(k, v) \<in> set (visited (isOperatorKey R) kvs).
                 \<exists>r. computeValue rs R obj v (Some k) options = Inr r)"
    then have n: "length (keys (VObj kvs)) \<noteq> 1" by simp
    from a have "\<forall>(k, v) \<in> set (visited (isOperatorKey R) kvs).
                 \<exists>r. computeValue rs R obj v (Some k) (Some (ensure options)) = Inr r"
      by (simp add: computeValue_ensure)
    from computeEach_invalid[OF ex n this]
    show "computeValue rs R obj (VObj kvs) None options = Inl (InvalidExpression (VObj kvs))"
      by (simp add: computeValue_object)
  }
qed

text \<open>
  The rule at \<open>{$sum: [1, 2]}\<close>, which collapses to the value of \<open>$sum\<close>, and at
  \<open>{x: 1, $sum: [1, 2], y: 3}\<close>, which is rejected.
\<close>

theorem computeValue_single_operator_witness:
  "''$sum'' \<in> set (keys sumOnly) \<and> ''$sum'' \<in> set (keys sumAmongOthers)
   \<and> ''$sum'' \<in> dom (accumulator groupRegistry)
   \<and> computeValue resolvePath groupRegistry docAB sumOnly None (Some noOptions)
       = computeValue resolvePath groupRegistry docAB (VArr [VNum (Fin 1), VNum (Fin 2)])
           (Some ''$sum'') (Some noOptions)
   \<and> computeValue resolvePath groupRegistry docAB sumAmongOthers None (Some noOptions)
       = Inl (InvalidExpression sumAmongOthers)"
proof -
  have k1: "''$sum'' \<in> set (keys (VObj [(''$sum'', VArr [VNum (Fin 1), VNum (Fin 2)])]))"
    by simp
  have k2: "''$sum'' \<in> set (keys (VObj [(''x'', VNum (Fin 1)),
              (''$sum'', VArr [VNum (Fin 1), VNum (Fin 2)]), (''y'', VNum (Fin 3))]))"
    by simp
  have r: "''$sum'' \<in> dom (expression groupRegistry) \<or> ''$sum'' \<in> dom (accumulator groupRegistry)"
    by (simp add: groupRegistry_def evaluation)
  have v: "\<forall>(k, v) \<in> set (visited (isOperatorKey groupRegistry) [(''x'', VNum (Fin 1)),
              (''$sum'', VArr [VNum (Fin 1), VNum (Fin 2)]), (''y'', VNum (Fin 3))]).
             \<exists>r. computeValue resolvePath groupRegistry docAB v (Some k) (Some noOptions) = Inr r"
    by (simp add: computeValue.simps groupRegistry_def evaluation)
  show ?thesis
    using computeValue_single_operator[OF k1 r, of resolvePath docAB "Some noOptions"]
      computeValue_single_operator[OF k2 r, of resolvePath docAB "Some noOptions"] v
    by (simp add: sumOnly_def sumAmongOthers_def groupRegistry_def evaluation)
qed

text \<open>
  The claim as it is worded promises \<open>InvalidExpression\<close> for every mapping of more than one
  entry with an operator key. At \<open>{$floor: true, a: 2}\<close> the operator is called first and
  throws, and its failure is the outcome.
\<close>

theorem computeValue_single_operator_counterexample:
  "''$floor'' \<in> set (keys floorAndField) \<and> ''$floor'' \<in> dom (expression floorRegistry)
   \<and> 1 < length (keys floorAndField)
   \<and> computeValue resolvePath floorRegistry docAB floorAndField None (Some noOptions)
       = Inl (TypeError ''$floor expression must resolve to a number.'')
   \<and> computeValue resolvePath floorRegistry docAB floorAndField None (Some noOptions)
       \<noteq> Inl (InvalidExpression floorAndField)"
  by (simp add: computeValue.simps floorAndField_def floorRegistry_def floor_op_def isNaN_def
      evaluation)

subsection \<open>Accumulator operators in computeValue\<close>



subsection \<open>The single-operator rule of accumulate\<close>

lemma accumulate_object:
  "getOperator (accumulator R) (Some field) = None \<Longrightarrow>
   accumulate R collection field (VObj kvs) options
     = accumulateEach R collection (VObj kvs) kvs [] options"
  by (subst accumulate.simps) simp

lemma accumulateEach_fails:
  assumes "\<exists>key \<in> set (map fst todo). isAccumulatorKey R key" and "length (keys expr) \<noteq> 1"
  shows "\<exists>e. accumulateEach R collection expr todo result options = Inl e"
  using assms
proof (induction todo arbitrary: result)
  case Nil
  then show ?case by simp
next
  case (Cons entry todo)
  obtain key v where entry: "entry = (key, v)" by (cases entry)
  show ?case
  proof (cases "accumulate R collection key v options")
    case (Inl e)
    then show ?thesis by (simp add: entry)
  next
    case (Inr r)
    show ?thesis
    proof (cases "isAccumulatorKey R key")
      case True
      with Inr Cons.prems(2) show ?thesis
        by (auto simp: entry isAccumulatorKey_def getOperator_Some)
    next
      case False
      with Cons.prems(1) have "\<exists>key \<in> set (map fst todo). isAccumulatorKey R key"
        by (auto simp: entry)
      from Cons.IH[OF this Cons.prems(2)] False Inr show ?thesis
        by (auto simp: entry isAccumulatorKey_def getOperator_Some split: option.splits)
    qed
  qed
qed

lemma accumulateEach_invalid:
  assumes "\<exists>key \<in> set (map fst todo). isAccumulatorKey R key" and "length (keys expr) \<noteq> 1"
    and "\<forall>(key, v) \<in> set (visited (isAccumulatorKey R) todo).
           \<exists>r. accumulate R collection key v options = Inr r"
  shows "accumulateEach R collection expr todo result options = Inl (InvalidGroupExpression expr)"
  using assms
proof (induction todo arbitrary: result)
  case Nil
  then show ?case by simp
next
  case (Cons entry todo)
  obtain key v where entry: "entry = (key, v)" by (cases entry)
  from Cons.prems(3) obtain r where r: "accumulate R collection key v options = Inr r"
    by (auto simp: entry split: if_splits)
  show ?case
  proof (cases "isAccumulatorKey R key")
    case True
    with r Cons.prems(2) show ?thesis
      by (auto simp: entry isAccumulatorKey_def getOperator_Some)
  next
    case False
    with Cons.prems(1) have ex: "\<exists>key \<in> set (map fst todo). isAccumulatorKey R key"
      by (auto simp: entry)
    from Cons.prems(3) False
    have "\<forall>(key, v) \<in> set (visited (isAccumulatorKey R) todo).
            \<exists>r. accumulate R collection key v options = Inr r"
      by (simp add: entry)
    from Cons.IH[OF ex Cons.prems(2) this] False r show ?thesis
      by (auto simp: entry isAccumulatorKey_def getOperator_Some split: option.splits)
  qed
qed

text \<open>
  Claim C6, as the code has it. Let \<open>field\<close> name no registered accumulator, let the
  expression be a mapping, and let one of its keys name a registered accumulator. If the
  mapping has exactly one entry, the call is what that accumulator returns for the
  collection and the value of the entry. If it has more than one entry, the call fails;
  the failure is \<open>InvalidGroupExpression\<close> when the entries the loop visits, up to and
  including the first accumulator key, reduce without failing.
\<close>

theorem accumulate_single_operator:
  assumes "getOperator (accumulator R) (Some field) = None"
    and "key \<in> set (keys (VObj kvs))"
    and "getOperator (accumulator R) (Some key) = Some call"
  shows "(length kvs = 1 \<longrightarrow>
            accumulate R collection field (VObj kvs) options
              = call (VArr collection) (snd (hd kvs)) options)
       \<and> (1 < length kvs \<longrightarrow> (\<exists>e. accumulate R collection field (VObj kvs) options = Inl e))
       \<and> (1 < length kvs
           \<and> (\<forall>(k, v) \<in> set (visited (isAccumulatorKey R) kvs).
                 \<exists>r. accumulate R collection k v options = Inr r) \<longrightarrow>
            accumulate R collection field (VObj kvs) options
              = Inl (InvalidGroupExpression (VObj kvs)))"
proof (intro conjI impI)
  assume "length kvs = 1"
  with assms(2) obtain v where kvs: "kvs = [(key, v)]"
    by (cases kvs) auto
  have "accumulate R collection key v options = call (VArr collection) v options"
    using assms(3) by (subst accumulate.simps) simp
  then show "accumulate R collection field (VObj kvs) options
               = call (VArr collection) (snd (hd kvs)) options"
    using assms(3) by (simp add: accumulate_object[OF assms(1)] kvs split: sum.splits)
next
  have ex: "\<exists>k \<in> set (map fst kvs). isAccumulatorKey R k"
    using assms(2,3) by (auto simp: isAccumulatorKey_def getOperator_Some)
  {
    assume "1 < length kvs"
    then have "length (keys (VObj kvs)) \<noteq> 1" by simp
    from accumulateEach_fails[OF ex this]
    show "\<exists>e. accumulate R collection field (VObj kvs) options = Inl e"
      by (simp add: accumulate_object[OF assms(1)])
  }
  {
    assume a: "1 < length kvs
           \<and> (\<forall>(k, v) \<in> set (visited (isAccumulatorKey R) kvs).
                 \<exists>r. accumulate R collection k v options = Inr r)"
    then have n: "length (keys (VObj kvs)) \<noteq> 1" by simp
    from a have "\<forall>(k, v) \<in> set (visited (isAccumulatorKey R) kvs).
                 \<exists>r. accumulate R collection k v options = Inr r"
      by simp
    from accumulateEach_invalid[OF ex n this]
    show "accumulate R collection field (VObj kvs) options
            = Inl (InvalidGroupExpression (VObj kvs))"
      by (simp add: accumulate_object[OF assms(1)])
  }
qed

text \<open>
  The rule at \<open>accumulate([doc], '$group', {$sum: [1, 2]}, opts)\<close>, which is what \<open>$sum\<close>
  returns, and at \<open>accumulate([doc], '$group', {$sum: '$a', $avg: '$a'}, opts)\<close>, which
  fails with \<open>InvalidGroupExpression\<close>.
\<close>

theorem accumulate_single_operator_witness:
  "getOperator (accumulator groupRegistry) (Some ''$group'') = None
   \<and> ''$sum'' \<in> set (keys sumOnly) \<and> ''$sum'' \<in> set (keys sumAndAvg)
   \<and> getOperator (accumulator groupRegistry) (Some ''$sum'') = Some count
   \<and> accumulate groupRegistry [docAB] ''$group'' sumOnly noOptions
       = count (VArr [docAB]) (VArr [VNum (Fin 1), VNum (Fin 2)]) noOptions
   \<and> accumulate groupRegistry [docAB] ''$group'' sumAndAvg noOptions
       = Inl (InvalidGroupExpression sumAndAvg)"
proof -
  have g: "getOperator (accumulator groupRegistry) (Some ''$group'') = None"
    by (simp add: groupRegistry_def evaluation)
  have k1: "''$sum'' \<in> set (keys (VObj [(''$sum'', VArr [VNum (Fin 1), VNum (Fin 2)])]))"
    by simp
  have k2: "''$sum'' \<in> set (keys (VObj [(''$sum'', VStr ''$a''), (''$avg'', VStr ''$a'')]))"
    by simp
  have c: "getOperator (accumulator groupRegistry) (Some ''$sum'') = Some count"
    by (simp add: groupRegistry_def evaluation)
  have v: "\<forall>(k, v) \<in> set (visited (isAccumulatorKey groupRegistry)
                [(''$sum'', VStr ''$a''), (''$avg'', VStr ''$a'')]).
             \<exists>r. accumulate groupRegistry [docAB] k v noOptions = Inr r"
    by (simp add: accumulate.simps groupRegistry_def evaluation)
  show ?thesis
    using g c v
      accumulate_single_operator[OF g k1 c, of "[docAB]" noOptions]
      accumulate_single_operator[OF g k2 c, of "[docAB]" noOptions]
    by (simp add: sumOnly_def sumAndAvg_def)
qed

text \<open>
  The claim as it is worded promises \<open>InvalidGroupExpression\<close> for every mapping of more
  than one entry with an accumulator key. At \<open>{$boom: 1, a: 2}\<close> the accumulator is called
  first and throws, and its failure is the outcome.
\<close>

theorem accumulate_single_operator_counterexample:
  "getOperator (accumulator boomGroupRegistry) (Some ''$group'') = None
   \<and> ''$boom'' \<in> set (keys boomAndField)
   \<and> getOperator (accumulator boomGroupRegistry) (Some ''$boom'') = Some boom
   \<and> 1 < length (keys boomAndField)
   \<and> accumulate boomGroupRegistry [docAB] ''$group'' boomAndField noOptions
       = Inl (Failure ''boom'')
   \<and> accumulate boomGroupRegistry [docAB] ''$group'' boomAndField noOptions
       \<noteq> Inl (InvalidGroupExpression boomAndField)"
  by (simp add: accumulate.simps boomGroupRegistry_def boomAndField_def boom_def evaluation)

subsection \<open>accumulate without an operator and without a mapping\<close>

text \<open>
  Claim C8. When \<open>field\<close> names no registered accumulator and the expression is not a
  mapping, \<open>accumulate\<close> returns \<open>undefined\<close> and raises nothing.
\<close>

theorem accumulate_undefined:
  assumes "getOperator (accumulator R) (Some field) = None" and "\<not> isObject expr"
  shows "accumulate R collection field expr options = Inr VUndef"
  using assms by (subst accumulate.simps) (cases expr; simp)

theorem accumulate_undefined_witness:
  "getOperator (accumulator groupRegistry) (Some ''total'') = None
   \<and> \<not> isObject (VStr ''$a'')
   \<and> accumulate groupRegistry [docAB] ''total'' (VStr ''$a'') noOptions = Inr VUndef"
proof -
  have g: "getOperator (accumulator groupRegistry) (Some ''total'') = None"
    by (simp add: groupRegistry_def evaluation)
  have o: "\<not> isObject (VStr ''$a'')" by simp
  show ?thesis
    using g o accumulate_undefined[OF g o, of "[docAB]" noOptions] by simp
qed

subsection \<open>Registering a name twice\<close>

lemma checkOperators_fails:
  assumes "registered R cls name" and "name \<in> set (map fst newOperators)"
  shows "\<exists>n. checkOperators R cls newOperators = Some (InvalidOperatorName n)
            \<or> checkOperators R cls newOperators = Some (DuplicateOperator n)"
  using assms(2)
proof (induction newOperators)
  case Nil
  then show ?case by simp
next
  case (Cons entry rest)
  obtain op fn where entry: "entry = (op, fn)" by (cases entry)
  show ?case
  proof (cases "validName op \<and> \<not> registered R cls op")
    case True
    with Cons.prems assms(1) have "name \<in> set (map fst rest)" by (auto simp: entry)
    from Cons.IH[OF this] True show ?thesis by (simp add: entry)
  next
    case False
    then show ?thesis by (auto simp: entry)
  qed
qed

lemma checkOperators_duplicate:
  assumes "registered R cls name" and "name \<in> set (map fst newOperators)"
    and "list_all (\<lambda>entry. validName (fst entry)) (visited (registered R cls) newOperators)"
  shows "\<exists>n. checkOperators R cls newOperators = Some (DuplicateOperator n)"
  using assms(2,3)
proof (induction newOperators)
  case Nil
  then show ?case by simp
next
  case (Cons entry rest)
  obtain op fn where entry: "entry = (op, fn)" by (cases entry)
  from Cons.prems(2) have valid: "validName op" by (simp add: entry split: if_splits)
  show ?case
  proof (cases "registered R cls op")
    case True
    with valid show ?thesis by (simp add: entry)
  next
    case False
    with Cons.prems assms(1) have "name \<in> set (map fst rest)" by (auto simp: entry)
    moreover from Cons.prems(2) False
    have "list_all (\<lambda>entry. validName (fst entry)) (visited (registered R cls) rest)"
      by (simp add: entry)
    ultimately show ?thesis using Cons.IH False valid by (simp add: entry)
  qed
qed

lemma checkOperators_first:
  "checkOperators R cls newOperators =
     (case find (offends R cls) (map fst newOperators) of
        None \<Rightarrow> None
      | Some n \<Rightarrow> Some (if validName n then DuplicateOperator n else InvalidOperatorName n))"
proof (induction newOperators)
  case Nil
  then show ?case by simp
next
  case (Cons entry rest)
  obtain op fn where entry: "entry = (op, fn)" by (cases entry)
  from Cons.IH show ?case by (simp add: entry offends_def)
qed

text \<open>A call of \<open>addOperators\<close> that fails, with whichever failure, leaves the registry as it was.\<close>

lemma addOperators_failure_keeps_registry:
  "fst (addOperators rs cls newOperators R) = Inl e \<Longrightarrow>
   snd (addOperators rs cls newOperators R) = R"
  by (auto simp: addOperators_def split: option.splits)

text \<open>
  Claim C5, as the code has it. Let a name be registered in a class, and let
  \<open>addOperators\<close> be called for that class with new operators that contain the name. Then
  the call fails and the registry is left as it was: the first registration stays in
  effect and no name of the batch is added. The failure is that of the first name, in the
  order of the batch, that does not match the pattern or is registered already: it is
  \<open>InvalidOperatorName\<close> for that name when the name does not match the pattern, and
  \<open>DuplicateOperator\<close> for that name otherwise. So it is \<open>DuplicateOperator\<close> when the names
  up to and including the first registered one all match the pattern.
\<close>

theorem addOperators_duplicate:
  assumes "registered R cls name" and "name \<in> set (map fst newOperators)"
  shows "snd (addOperators rs cls newOperators R) = R
       \<and> (\<exists>n. find (offends R cls) (map fst newOperators) = Some n
              \<and> fst (addOperators rs cls newOperators R)
                  = Inl (if validName n then DuplicateOperator n else InvalidOperatorName n))
       \<and> (list_all (\<lambda>entry. validName (fst entry)) (visited (registered R cls) newOperators) \<longrightarrow>
            (\<exists>n. fst (addOperators rs cls newOperators R) = Inl (DuplicateOperator n)))"
proof (intro conjI impI)
  from assms have "\<exists>x \<in> set (map fst newOperators). offends R cls x"
    by (auto simp: offends_def)
  then obtain n where n: "find (offends R cls) (map fst newOperators) = Some n"
    by (cases "find (offends R cls) (map fst newOperators)") (auto simp: find_None_iff)
  then have c: "checkOperators R cls newOperators
                  = Some (if validName n then DuplicateOperator n else InvalidOperatorName n)"
    by (simp add: checkOperators_first)
  from c show "snd (addOperators rs cls newOperators R) = R"
    by (simp add: addOperators_def)
  from n c show "\<exists>n. find (offends R cls) (map fst newOperators) = Some n
              \<and> fst (addOperators rs cls newOperators R)
                  = Inl (if validName n then DuplicateOperator n else InvalidOperatorName n)"
    by (simp add: addOperators_def)
next
  assume "list_all (\<lambda>entry. validName (fst entry)) (visited (registered R cls) newOperators)"
  from checkOperators_duplicate[OF assms this]
  show "\<exists>n. fst (addOperators rs cls newOperators R) = Inl (DuplicateOperator n)"
    by (auto simp: addOperators_def)
qed

text \<open>
  With \<open>$a\<close> registered as an expression operator, registering \<open>{$b, $a}\<close> fails with
  \<open>DuplicateOperator\<close> for \<open>$a\<close>, and \<open>$b\<close> is not registered afterwards; registering
  \<open>{bad, $a}\<close> fails with \<open>InvalidOperatorName\<close> for \<open>bad\<close>. The registry is the same after
  both.
\<close>

theorem addOperators_duplicate_witness:
  "registered dupRegistry EXPRESSION ''$a'' \<and> ''$a'' \<in> set (map fst dupBatch)
   \<and> ''$a'' \<in> set (map fst badBatch)
   \<and> list_all (\<lambda>entry. validName (fst entry)) (visited (registered dupRegistry EXPRESSION) dupBatch)
   \<and> find (offends dupRegistry EXPRESSION) (map fst dupBatch) = Some ''$a''
   \<and> fst (addOperators resolvePath EXPRESSION dupBatch dupRegistry) = Inl (DuplicateOperator ''$a'')
   \<and> snd (addOperators resolvePath EXPRESSION dupBatch dupRegistry) = dupRegistry
   \<and> \<not> registered (snd (addOperators resolvePath EXPRESSION dupBatch dupRegistry)) EXPRESSION ''$b''
   \<and> find (offends dupRegistry EXPRESSION) (map fst badBatch) = Some ''bad''
   \<and> fst (addOperators resolvePath EXPRESSION badBatch dupRegistry) = Inl (InvalidOperatorName ''bad'')
   \<and> snd (addOperators resolvePath EXPRESSION badBatch dupRegistry) = dupRegistry"
proof -
  have r: "registered dupRegistry EXPRESSION ''$a''"
    by (simp add: dupRegistry_def addOperators_def registered_def validName_def wordChars_def
        evaluation)
  have nb: "\<not> registered dupRegistry EXPRESSION ''$b''"
    by (simp add: dupRegistry_def addOperators_def registered_def validName_def wordChars_def
        evaluation)
  have m: "''$a'' \<in> set (map fst dupBatch)"
    by (simp add: dupBatch_def)
  have m': "''$a'' \<in> set (map fst badBatch)"
    by (simp add: badBatch_def)
  have v: "list_all (\<lambda>entry. validName (fst entry))
             (visited (registered dupRegistry EXPRESSION) dupBatch)"
    using r nb by (simp add: dupBatch_def validName_def wordChars_def)
  have f: "find (offends dupRegistry EXPRESSION) (map fst dupBatch) = Some ''$a''"
    using r nb by (simp add: dupBatch_def offends_def validName_def wordChars_def)
  have f': "find (offends dupRegistry EXPRESSION) (map fst badBatch) = Some ''bad''"
    by (simp add: badBatch_def offends_def validName_def)
  have a: "validName ''$a''" and b: "\<not> validName ''bad''"
    by (simp_all add: validName_def wordChars_def)
  show ?thesis
    using r m m' v f f' a b nb addOperators_duplicate[OF r m, of resolvePath]
      addOperators_duplicate[OF r m', of resolvePath]
    by simp
qed

text \<open>
  The claim as it is worded promises \<open>DuplicateOperator\<close> whenever the batch contains a
  registered name. With \<open>$a\<close> registered, the batch \<open>{bad, $a}\<close> fails on \<open>bad\<close>, which is
  visited first, with \<open>InvalidOperatorName\<close>.
\<close>

theorem addOperators_duplicate_counterexample:
  "registered dupRegistry EXPRESSION ''$a'' \<and> ''$a'' \<in> set (map fst badBatch)
   \<and> fst (addOperators resolvePath EXPRESSION badBatch dupRegistry)
       = Inl (InvalidOperatorName ''bad'')"
  by (simp add: badBatch_def dupRegistry_def addOperators_def registered_def validName_def
      wordChars_def evaluation)

subsection \<open>The outcomes of redact\<close>

lemma redact_unfold:
  assumes "computeValue rs R obj expr None (Some options) = Inr result"
  shows "redact rs R obj expr options =
     (if keyThrows result then Inl (TypeError ''Cannot convert object to primitive value'')
      else
        (case redactVariableOf result of
           Some name \<Rightarrow>
             redactVariables rs R name obj expr (assignRoot obj (ensure (Some options)))
         | None \<Rightarrow> Inr result))"
  using assms by (subst redact.simps) simp

text \<open>
  What holds of \<open>redact\<close>, with \<open>result = computeValue(obj, expr, null, options)\<close>. If the
  result is the literal \<open>$$KEEP\<close>, the document is returned as it is; if it is \<open>$$PRUNE\<close>,
  the absent value is returned; if it is \<open>$$DESCEND\<close> and the expression has no \<open>$cond\<close>
  entry, the document is returned unmodified; and a result that, as a property key,
  converts without throwing and reads as none of the three names is returned as it is.
  For a result that is a string, that is any string other than the three names.
\<close>

lemma redact_outcomes:
  assumes "computeValue rs R obj expr None (Some options) = Inr result"
  shows "(result = VStr ''$$KEEP'' \<longrightarrow> redact rs R obj expr options = Inr obj)
       \<and> (result = VStr ''$$PRUNE'' \<longrightarrow> redact rs R obj expr options = Inr VUndef)
       \<and> (result = VStr ''$$DESCEND'' \<and> \<not> has expr ''$cond'' \<longrightarrow>
            redact rs R obj expr options = Inr obj)
       \<and> (\<not> keyThrows result \<and> redactVariableOf result = None \<longrightarrow>
            redact rs R obj expr options = Inr result)"
  by (auto simp: redact_unfold[OF assms] redactVariables.simps redactVariableNames_def)

lemma redact_string_outcome:
  assumes "computeValue rs R obj expr None (Some options) = Inr (VStr s)"
    and "s \<notin> set redactVariableNames"
  shows "redact rs R obj expr options = Inr (VStr s)"
  using assms(2) by (simp add: redact_unfold[OF assms(1)])

text \<open>
  The four outcomes on the document \<open>{a: {b: 1}}\<close>, for the expressions \<open>'$$KEEP'\<close>,
  \<open>'$$PRUNE'\<close>, \<open>'$$DESCEND'\<close> and \<open>'$a'\<close>.
\<close>

lemma redact_outcomes_examples:
  "redact resolvePath OPERATORS docAB (VStr ''$$KEEP'') noOptions = Inr docAB
   \<and> redact resolvePath OPERATORS docAB (VStr ''$$PRUNE'') noOptions = Inr VUndef
   \<and> redact resolvePath OPERATORS docAB (VStr ''$$DESCEND'') noOptions = Inr docAB
   \<and> redact resolvePath OPERATORS docAB (VStr ''$a'') noOptions = Inr (VObj [(''b'', VNum (Fin 1))])"
proof -
  have k: "computeValue resolvePath OPERATORS docAB (VStr ''$$KEEP'') None (Some noOptions)
             = Inr (VStr ''$$KEEP'')"
    by (simp add: computeValue.simps evaluation)
  have p: "computeValue resolvePath OPERATORS docAB (VStr ''$$PRUNE'') None (Some noOptions)
             = Inr (VStr ''$$PRUNE'')"
    by (simp add: computeValue.simps evaluation)
  have d: "computeValue resolvePath OPERATORS docAB (VStr ''$$DESCEND'') None (Some noOptions)
             = Inr (VStr ''$$DESCEND'')"
    by (simp add: computeValue.simps evaluation)
  have a: "computeValue resolvePath OPERATORS docAB (VStr ''$a'') None (Some noOptions)
             = Inr (VObj [(''b'', VNum (Fin 1))])"
    by (simp add: computeValue.simps resolvePath_def evaluation)
  show ?thesis
    using redact_outcomes[OF k] redact_outcomes[OF p] redact_outcomes[OF d]
      redact_outcomes[OF a]
    by simp
qed

text \<open>
  Claim C4 says that a result of \<open>computeValue\<close> that is none of the three names is
  returned by \<open>redact\<close> as it is. The code uses the result as a key of the table without
  testing that it is a string, as \<open>computeValue\<close> does before it consults the same table.
  For the expression \<open>['$$KEEP']\<close> the result is the array \<open>['$$KEEP']\<close>, which is none of
  the three names; as a key it reads \<open>$$KEEP\<close>, the handler of \<open>$$KEEP\<close> runs, and
  \<open>redact\<close> returns the document, not the array.
\<close>

theorem redact_array_read_as_name:
  "computeValue rs R obj (VArr [VStr ''$$KEEP'']) None (Some options)
     = Inr (VArr [VStr ''$$KEEP''])
   \<and> redact rs R obj (VArr [VStr ''$$KEEP'']) options = Inr obj"
proof -
  have c: "computeValue rs R obj (VArr [VStr ''$$KEEP'']) None (Some options)
             = Inr (VArr [VStr ''$$KEEP''])"
    by (simp add: computeValue.simps evaluation)
  show ?thesis
    by (simp add: c redact_unfold[OF c] redactVariables.simps redactVariableNames_def)
qed

subsection \<open>A path under a system variable\<close>

lemma split_nonempty: "split s c \<noteq> []"
  by (induction s) (auto split: list.splits)

lemma split_append: "c \<notin> set a \<Longrightarrow> split (a @ c # b) c = a # split b c"
  by (induction a) (auto split: list.splits)

text \<open>
  Claim C7. Let the operator name select no expression operator and no accumulator, and
  let the expression be a string whose first dot-segment names a system variable and
  which goes on after the dot. Then the call returns the rest of the path, after that
  segment and its dot, resolved against what the system variable returns for the
  document.
\<close>

theorem computeValue_system_variable_path:
  assumes "getOperator (expression R) operator = None"
    and "getOperator (accumulator R) operator = None"
    and "name \<in> set (map fst systemVariables)"
  shows "computeValue rs R obj (VStr (name @ ''.'' @ path)) operator options
           = Inr (rs (the (map_of systemVariables name) obj VNull
                        (assignRoot obj (ensure options))) path False)"
proof -
  from assms(3) have name: "name = ''$$ROOT'' \<or> name = ''$$CURRENT'' \<or> name = ''$$REMOVE''"
    by (auto simp: systemVariables_def)
  then have nodot: "CHR ''.'' \<notin> set name" and hd: "name \<noteq> []" "hd name = CHR ''$''"
    by auto
  from name obtain var where var: "map_of systemVariables name = Some var"
    by (auto simp: systemVariables_def)
  have sp: "split (name @ CHR ''.'' # path) CHR ''.'' = name # split path CHR ''.''"
    using nodot by (rule split_append)
  have len: "length (split (name @ CHR ''.'' # path) CHR ''.'') \<noteq> 1"
    using split_nonempty[of path "CHR ''.''"] by (simp add: sp)
  have nr: "name @ CHR ''.'' # path \<notin> set redactVariableNames"
    using name by (auto simp: redactVariableNames_def)
  show ?thesis
    using hd len nr var assms(1,2)
    by (subst computeValue.simps) (simp add: Let_def sp)
qed

text \<open>For the document \<open>{a: {b: 1}}\<close>, \<open>computeValue(doc, '$$ROOT.a.b', null, {})\<close> is \<open>1\<close>.\<close>

theorem computeValue_system_variable_path_witness:
  "getOperator (expression OPERATORS) None = None
   \<and> getOperator (accumulator OPERATORS) None = None
   \<and> ''$$ROOT'' \<in> set (map fst systemVariables)
   \<and> computeValue resolvePath OPERATORS docAB (VStr ''$$ROOT.a.b'') None (Some noOptions)
       = Inr (VNum (Fin 1))"
proof -
  have e: "getOperator (expression OPERATORS) None = None"
    by (simp add: getOperator_None)
  have a: "getOperator (accumulator OPERATORS) None = None"
    by (simp add: getOperator_None)
  have s: "''$$ROOT'' \<in> set (map fst systemVariables)"
    by (simp add: systemVariables_def)
  show ?thesis
    using e a s
      computeValue_system_variable_path[OF e a s, of resolvePath docAB "''a.b''" "Some noOptions"]
    by (simp add: resolvePath_def evaluation)
qed

subsection \<open>The operator \<open>$floor\<close>\<close>

text \<open>
  Claim C10. When the argument of \<open>$floor\<close> resolves to \<open>null\<close> or to the absent value,
  the operator returns \<open>null\<close> and raises nothing.
\<close>

theorem floor_nil:
  assumes "computeValue rs R obj expr None (Some options) = Inr n" and "isNil n"
  shows "floor_op host rs R obj expr options = Inr VNull"
  using assms by (simp add: floor_op_def)

text \<open>The arguments \<open>null\<close> and \<open>'$missing'\<close>, a path to a field the document does not have.\<close>

theorem floor_nil_witness:
  "computeValue resolvePath OPERATORS docAB VNull None (Some noOptions) = Inr VNull
   \<and> isNil VNull
   \<and> floor_op noHost resolvePath OPERATORS docAB VNull noOptions = Inr VNull
   \<and> computeValue resolvePath OPERATORS docAB (VStr ''$missing'') None (Some noOptions) = Inr VUndef
   \<and> isNil VUndef
   \<and> floor_op noHost resolvePath OPERATORS docAB (VStr ''$missing'') noOptions = Inr VNull"
proof -
  have n: "computeValue resolvePath OPERATORS docAB VNull None (Some noOptions) = Inr VNull"
    by (simp add: computeValue.simps evaluation)
  have m: "computeValue resolvePath OPERATORS docAB (VStr ''$missing'') None (Some noOptions)
             = Inr VUndef"
    by (simp add: computeValue.simps resolvePath_def evaluation)
  have i1: "isNil VNull" and i2: "isNil VUndef" by simp_all
  show ?thesis
    using n m i1 i2 floor_nil[OF n i1, of noHost] floor_nil[OF m i2, of noHost] by simp
qed

text \<open>
  Claim C9, as the code has it. Let the argument of \<open>$floor\<close> resolve to a value \<open>n\<close>. If \<open>n\<close>
  is not nil, is not a number, and converts to a number other than not-a-number (a
  boolean does), the operator fails with the \<open>TypeError\<close> of its assertion. If \<open>n\<close> is a
  finite number, the operator returns the largest integer that is less than or equal to
  it. If \<open>n\<close> is not-a-number or an infinity, the assertion lets it through and it is
  returned as it is.
\<close>

theorem floor_outcomes:
  assumes "computeValue rs R obj expr None (Some options) = Inr n"
  shows "(\<not> isNil n \<and> \<not> isNumber n \<and> (\<exists>x. ToNumber host n = Inr x \<and> x \<noteq> NaN) \<longrightarrow>
            floor_op host rs R obj expr options
              = Inl (TypeError ''$floor expression must resolve to a number.''))
       \<and> (\<forall>q. n = VNum (Fin q) \<longrightarrow>
            (\<exists>k::int. floor_op host rs R obj expr options = Inr (VNum (Fin (of_int k)))
                \<and> of_int k \<le> q \<and> (\<forall>j::int. of_int j \<le> q \<longrightarrow> j \<le> k)))
       \<and> (n = VNum NaN \<or> n = VNum PosInf \<or> n = VNum NegInf \<longrightarrow>
            floor_op host rs R obj expr options = Inr n)"
proof (intro conjI impI allI)
  assume "\<not> isNil n \<and> \<not> isNumber n \<and> (\<exists>x. ToNumber host n = Inr x \<and> x \<noteq> NaN)"
  then show "floor_op host rs R obj expr options
              = Inl (TypeError ''$floor expression must resolve to a number.'')"
    using assms by (auto simp: floor_op_def isNaN_def)
next
  fix q assume "n = VNum (Fin q)"
  with assms have "floor_op host rs R obj expr options = Inr (VNum (Fin (of_int \<lfloor>q\<rfloor>)))"
    by (simp add: floor_op_def)
  moreover have "of_int \<lfloor>q\<rfloor> \<le> q" by simp
  moreover have "\<forall>j::int. of_int j \<le> q \<longrightarrow> j \<le> \<lfloor>q\<rfloor>" by (simp add: le_floor_iff)
  ultimately show "\<exists>k::int. floor_op host rs R obj expr options = Inr (VNum (Fin (of_int k)))
                \<and> of_int k \<le> q \<and> (\<forall>j::int. of_int j \<le> q \<longrightarrow> j \<le> k)"
    by blast
next
  assume "n = VNum NaN \<or> n = VNum PosInf \<or> n = VNum NegInf"
  with assms show "floor_op host rs R obj expr options = Inr n"
    by (auto simp: floor_op_def)
qed

text \<open>The arguments \<open>true\<close>, \<open>3.5\<close> and \<open>Infinity\<close>.\<close>

theorem floor_outcomes_witness:
  "computeValue resolvePath OPERATORS docAB (VBool True) None (Some noOptions) = Inr (VBool True)
   \<and> floor_op noHost resolvePath OPERATORS docAB (VBool True) noOptions
       = Inl (TypeError ''$floor expression must resolve to a number.'')
   \<and> computeValue resolvePath OPERATORS docAB (VNum (Fin (7 / 2))) None (Some noOptions)
       = Inr (VNum (Fin (7 / 2)))
   \<and> floor_op noHost resolvePath OPERATORS docAB (VNum (Fin (7 / 2))) noOptions
       = Inr (VNum (Fin 3))
   \<and> computeValue resolvePath OPERATORS docAB (VNum PosInf) None (Some noOptions)
       = Inr (VNum PosInf)
   \<and> floor_op noHost resolvePath OPERATORS docAB (VNum PosInf) noOptions = Inr (VNum PosInf)"
proof -
  have b: "computeValue resolvePath OPERATORS docAB (VBool True) None (Some noOptions)
             = Inr (VBool True)"
    by (simp add: computeValue.simps evaluation)
  have q: "computeValue resolvePath OPERATORS docAB (VNum (Fin (7 / 2))) None (Some noOptions)
             = Inr (VNum (Fin (7 / 2)))"
    by (simp add: computeValue.simps evaluation)
  have i: "computeValue resolvePath OPERATORS docAB (VNum PosInf) None (Some noOptions)
             = Inr (VNum PosInf)"
    by (simp add: computeValue.simps evaluation)
  from floor_outcomes[OF q, of noHost]
  obtain k :: int where
    k: "floor_op noHost resolvePath OPERATORS docAB (VNum (Fin (7 / 2))) noOptions
          = Inr (VNum (Fin (of_int k)))"
      "of_int k \<le> (7 / 2 :: rat)"
      "\<forall>j::int. of_int j \<le> (7 / 2 :: rat) \<longrightarrow> j \<le> k"
    by blast
  from k(3) have "3 \<le> k" by (simp add: le_floor_iff)
  moreover from k(2) have "k \<le> 3" by (simp add: le_floor_iff)
  ultimately have "k = 3" by simp
  with k(1) have f: "floor_op noHost resolvePath OPERATORS docAB (VNum (Fin (7 / 2))) noOptions
                       = Inr (VNum (Fin 3))"
    by simp
  show ?thesis
    using b q i f floor_outcomes[OF b, of noHost] floor_outcomes[OF i, of noHost]
    by simp
qed

text \<open>
  The claim as it is worded promises, for a resolved value that is not nil, either the
  \<open>TypeError\<close> or an integer. For not-a-number the operator gives neither: it returns
  not-a-number.
\<close>

theorem floor_outcomes_counterexample:
  "computeValue resolvePath OPERATORS docAB (VNum NaN) None (Some noOptions) = Inr (VNum NaN)
   \<and> \<not> isNil (VNum NaN)
   \<and> floor_op noHost resolvePath OPERATORS docAB (VNum NaN) noOptions = Inr (VNum NaN)"
  by (simp add: floor_op_def computeValue.simps evaluation)

text \<open>
  The assertion applies \<open>isNaN\<close> to values that are not numbers, and \<open>isNaN\<close> converts its
  argument first. A plain object converts to not-a-number, so the assertion lets it
  through as well, and \<open>Math.floor\<close> of it is not-a-number.
\<close>

lemma floor_of_object:
  "floor_op host rs OPERATORS obj (VObj [(''a'', VNum (Fin 1))]) options = Inr (VNum NaN)"
  by (simp add: floor_op_def computeValue.simps isNaN_def evaluation)

subsection \<open>The root of the options\<close>

text \<open>
  A root that the options carry on entry is what \<open>$$ROOT\<close> returns; without one,
  \<open>$$ROOT\<close> returns the document of the call.
\<close>

lemma root_bound_on_entry:
  "computeValue rs R obj (VStr ''$$ROOT'') None (Some (options\<lparr>root := Some r\<rparr>)) = Inr r"
  by (simp add: computeValue.simps evaluation)

lemma root_unbound_on_entry:
  "root options = None \<Longrightarrow> computeValue rs R obj (VStr ''$$ROOT'') None (Some options) = Inr obj"
  by (simp add: computeValue.simps evaluation)

text \<open>
  Claim C1 speaks of a root that is bound at the first resolution of a system variable
  and handed on to every later call of the chain. The code binds it in a copy of the
  options that only the handler of the system variable sees. In
  \<open>computeValue(obj, ['$$ROOT', {$probe: 0}], null, {})\<close> the first element resolves
  \<open>$$ROOT\<close> to the document, and the operator called for the second element, later in the
  same chain, is handed options without a root.
\<close>

theorem root_not_handed_on:
  "computeValue rs probeRegistry obj
     (VArr [VStr ''$$ROOT'', VObj [(''$probe'', VNum (Fin 0))]]) None (Some noOptions)
     = Inr (VArr [obj, VUndef])"
  by (simp add: computeValue.simps evaluation probeRegistry_def probe_def)

text \<open>
  An operator that evaluates its argument against a part of the document, with the
  options it was handed, therefore has \<open>$$ROOT\<close> resolve to that part: in
  \<open>computeValue({a: {b: 1}}, ['$$ROOT', {$on: '$$ROOT'}], null, {})\<close> the two elements are
  two different roots.
\<close>

lemma root_differs_in_nested_evaluation:
  "computeValue resolvePath onRegistry docAB
     (VArr [VStr ''$$ROOT'', VObj [(''$on'', VStr ''$$ROOT'')]]) None (Some noOptions)
     = Inr (VArr [docAB, VObj [(''b'', VNum (Fin 1))]])"
  by (simp add: computeValue.simps evaluation onRegistry_def on_def resolvePath_def)

end
